theory Spec2Isabelle
  imports Complex_Main
begin

section \<open>The browser environment\<close>

text \<open>
  The services of the dashboard act on three pieces of ambient browser state: the
  origin's \<open>localStorage\<close>, the current location, and the console. The model passes them
  explicitly as one record. Every effect is also appended to \<open>events\<close>, so that a
  statement can count how often a key was removed or where the page navigated.

  \<open>window.location.href = url\<close> (a page load) and react-router's \<open>navigate(url)\<close> (a
  client-side route change) both leave the page at \<open>url\<close>; they are told apart by
  their event.
\<close>

datatype event =
    SetItem string string
  | RemoveItem string
  | SetHref string
  | RouterNavigate string
  | ConsoleLog
  | ConsoleError

record browser =
  localStorage :: "string \<rightharpoonup> string"
  href :: string
  events :: "event list"

definition getItem :: "string \<Rightarrow> browser \<Rightarrow> string option" where
  "getItem k w = localStorage w k"

definition setItem :: "string \<Rightarrow> string \<Rightarrow> browser \<Rightarrow> browser" where
  "setItem k v w =
     w\<lparr>localStorage := (localStorage w)(k \<mapsto> v), events := events w @ [SetItem k v]\<rparr>"

definition removeItem :: "string \<Rightarrow> browser \<Rightarrow> browser" where
  "removeItem k w =
     w\<lparr>localStorage := (localStorage w)(k := None), events := events w @ [RemoveItem k]\<rparr>"

definition set_location_href :: "string \<Rightarrow> browser \<Rightarrow> browser" where
  "set_location_href url w = w\<lparr>href := url, events := events w @ [SetHref url]\<rparr>"

definition navigate :: "string \<Rightarrow> browser \<Rightarrow> browser" where
  "navigate url w = w\<lparr>href := url, events := events w @ [RouterNavigate url]\<rparr>"

definition console_log :: "browser \<Rightarrow> browser" where
  "console_log w = w\<lparr>events := events w @ [ConsoleLog]\<rparr>"

definition console_error :: "browser \<Rightarrow> browser" where
  "console_error w = w\<lparr>events := events w @ [ConsoleError]\<rparr>"

text \<open>JavaScript truthiness of a string or \<open>null\<close>: \<open>null\<close> and the empty string are falsy.\<close>

definition truthy :: "string option \<Rightarrow> bool" where
  "truthy t = (case t of None \<Rightarrow> False | Some s \<Rightarrow> s \<noteq> [])"

text \<open>How often the stored bearer token was removed during a run.\<close>

definition token_removals :: "browser \<Rightarrow> nat" where
  "token_removals w = count_list (events w) (RemoveItem ''auth_token'')"


section \<open>Errors and exceptions\<close>

text \<open>
  The user-facing texts of the source are Russian string literals; the model names each
  one and keeps dynamic texts (a server's \<open>detail\<close>, a transport error's message) as
  strings.
  \<^item> \<open>InvalidCredentialsText\<close>: the literal of \<open>login\<close>'s error, "wrong user name or password";
  \<^item> \<open>RequestFailedText\<close>: the interceptor's default, "an error occurred while performing the request";
  \<^item> \<open>NetworkErrorText\<close>: the interceptor's default for a missing response, "network error".
\<close>

datatype message =
    InvalidCredentialsText
  | RequestFailedText
  | NetworkErrorText
  | Text string

text \<open>
  A thrown value: \<open>new Error(message)\<close>, the decoder's \<open>InvalidTokenError\<close>, or a
  \<open>TypeError\<close> of the runtime.
\<close>

datatype js_error = Error message | InvalidTokenError | TypeError

text \<open>
  \<open>try { body } catch (error) { handler }\<close> over a computation that threads the browser
  state: the handler runs in the state the body had reached when it threw.
\<close>

definition try_catch ::
  "('s \<Rightarrow> ('e + 'a) \<times> 's) \<Rightarrow> ('e \<Rightarrow> 's \<Rightarrow> ('f + 'a) \<times> 's) \<Rightarrow> 's \<Rightarrow> ('f + 'a) \<times> 's" where
  "try_catch body handler w =
     (case body w of
        (Inl e, w') \<Rightarrow> handler e w'
      | (Inr v, w') \<Rightarrow> (Inr v, w'))"


section \<open>The HTTP client\<close>

text \<open>
  The client is the shared axios instance with the two interceptors of the repository.
  What axios itself does is modelled as far as the services depend on it: a request
  passes the request interceptor, the backend answers or does not, and a response is
  handed to the fulfilled handler when its status passes the default
  \<open>validateStatus\<close> (\<open>status >= 200 && status < 300\<close>), to the rejected handler
  otherwise.

  A body is seen through the type the caller declared (\<open>axios.get<T>\<close>): \<open>Data\<close> is an
  object of that type, \<open>Obj d\<close> any other object, with its \<open>detail\<close> property when it
  has one, and \<open>Null\<close> a missing body.
\<close>

datatype 'd body = Data 'd | Obj "string option" | Null

record 'd response =
  status :: int
  data :: "'d body"

text \<open>The backend's part in one request: a response, or none (with the transport's message).\<close>

datatype 'd reply = Response "'d response" | NoResponse string

text \<open>The error axios hands to the rejected handler: \<open>error.response\<close> and \<open>error.message\<close>.\<close>

record 'd axios_error =
  response :: "'d response option"
  message :: string

text \<open>
  The object the rejected handler rejects with, \<open>{ status, message, data }\<close>; its fields
  are primed to keep them apart from those of the response. The transport branch builds
  an object without \<open>data\<close>.
\<close>

record 'd rejection =
  status' :: int
  message' :: message
  data' :: "'d body option"

datatype http_method = GET | POST

text \<open>
  The endpoints the services call: \<open>/api/auth/token\<close>, \<open>/api/logs?lines=N\<close> and
  \<open>/api/logs/clear\<close>.
\<close>

datatype url = AuthTokenUrl | LogsUrl int | LogsClearUrl

record config =
  url :: url
  method' :: http_method
  headers :: "(string \<rightharpoonup> string) option"
  formData :: "(string \<times> string) list option"

text \<open>\<open>response.data?.detail || '...'\<close>: the detail when it is there and truthy.\<close>

definition detail_message :: "'d body \<Rightarrow> message" where
  "detail_message b =
     (case b of
        Obj (Some d) \<Rightarrow> if truthy (Some d) then Text d else RequestFailedText
      | _ \<Rightarrow> RequestFailedText)"

text \<open>The response interceptor: \<open>(response) => response\<close> and the error handler.\<close>

definition response_onFulfilled :: "'d response \<Rightarrow> 'd response" where
  "response_onFulfilled r = r"

definition response_onRejected ::
  "'d axios_error \<Rightarrow> browser \<Rightarrow> ('d rejection + 'd response) \<times> browser" where
  "response_onRejected error w =
     (case response error of
        Some r \<Rightarrow>
          (let w' = (if status r = 401 then set_location_href ''/login'' w else w) in
           (Inl \<lparr>status' = status r, message' = detail_message (data r),
                 data' = Some (data r)\<rparr>, w'))
      | None \<Rightarrow>
          (Inl \<lparr>status' = 0,
                message' = (if truthy (Some (message error)) then Text (message error)
                            else NetworkErrorText),
                data' = None\<rparr>, w))"

text \<open>The request interceptor: \<open>if (token && config.headers)\<close> set the header.\<close>

definition request_onFulfilled :: "config \<Rightarrow> browser \<Rightarrow> config" where
  "request_onFulfilled config w =
     (let token = getItem ''auth_token'' w in
      case (token, headers config) of
        (Some t, Some h) \<Rightarrow>
          if truthy token
          then config\<lparr>headers := Some (h(''Authorization'' \<mapsto> ''Bearer '' @ t))\<rparr>
          else config
      | _ \<Rightarrow> config)"

definition validateStatus :: "int \<Rightarrow> bool" where
  "validateStatus s = (200 \<le> s \<and> s < 300)"

text \<open>
  One request through the client. The message axios gives a status error is not read by
  the rejected handler on that branch.
\<close>

definition axios_request ::
  "(config \<Rightarrow> 'd reply) \<Rightarrow> config \<Rightarrow> browser \<Rightarrow> ('d rejection + 'd response) \<times> browser" where
  "axios_request server config w =
     (case server (request_onFulfilled config w) of
        Response r \<Rightarrow>
          if validateStatus (status r) then (Inr (response_onFulfilled r), w)
          else response_onRejected \<lparr>response = Some r, message = ''Request failed''\<rparr> w
      | NoResponse m \<Rightarrow> response_onRejected \<lparr>response = None, message = m\<rparr> w)"

text \<open>The headers axios starts a request with.\<close>

definition default_headers :: "string \<rightharpoonup> string" where
  "default_headers = [''Accept'' \<mapsto> ''application/json, text/plain, */*'']"

definition get_config :: "url \<Rightarrow> config" where
  "get_config u = \<lparr>url = u, method' = GET, headers = Some default_headers, formData = None\<rparr>"

definition post_config :: "url \<Rightarrow> (string \<times> string) list option \<Rightarrow> config" where
  "post_config u d = \<lparr>url = u, method' = POST, headers = Some default_headers, formData = d\<rparr>"

definition axios_get ::
  "(config \<Rightarrow> 'd reply) \<Rightarrow> url \<Rightarrow> browser \<Rightarrow> ('d rejection + 'd response) \<times> browser" where
  "axios_get server u w = axios_request server (get_config u) w"

definition axios_post ::
  "(config \<Rightarrow> 'd reply) \<Rightarrow> url \<Rightarrow> (string \<times> string) list option \<Rightarrow> browser
     \<Rightarrow> ('d rejection + 'd response) \<times> browser" where
  "axios_post server u d w = axios_request server (post_config u d) w"


section \<open>Numbers\<close>

text \<open>
  A JavaScript number is a double; the model writes a number as the real it denotes.
  Comparison of doubles is the comparison of these reals. The one arithmetic step of the
  services is the division \<open>Date.now() / 1000\<close>, which yields the double nearest to the
  exact quotient, a tie going to the even significand. \<open>double_quotient p q\<close> is that
  double for integers \<open>p\<close> and \<open>q > 0\<close>: the quotient is scaled into the binade of 53-bit
  significands, rounded to an integer there, and scaled back. (No quotient of a
  millisecond count by 1000 leaves the range of normal doubles, so the exponent needs no
  bounds.)
\<close>

function bit_length :: "int \<Rightarrow> int" where
  "bit_length n = (if n \<le> 0 then 0 else 1 + bit_length (n div 2))"
  by auto
termination
  by (relation "measure nat") auto

declare bit_length.simps [simp del]

definition pow2 :: "int \<Rightarrow> int" where
  "pow2 k = 2 ^ nat k"

text \<open>The integer nearest to \<open>num / den\<close> for \<open>den > 0\<close>, a tie going to the even one.\<close>

definition round_half_even :: "int \<Rightarrow> int \<Rightarrow> int" where
  "round_half_even num den =
     (let m = num div den; r = num mod den in
      if 2 * r < den then m
      else if den < 2 * r then m + 1
      else if even m then m else m + 1)"

text \<open>The exponent \<open>k\<close> with \<open>2 ^ k \<le> p / q < 2 ^ (k + 1)\<close>, for positive \<open>p\<close> and \<open>q\<close>.\<close>

definition binade :: "int \<Rightarrow> int \<Rightarrow> int" where
  "binade p q =
     (let k = bit_length p - bit_length q in
      if q * pow2 k \<le> p * pow2 (- k) then k else k - 1)"

definition double_quotient_pos :: "int \<Rightarrow> int \<Rightarrow> real" where
  "double_quotient_pos p q =
     (let e = binade p q - 52;
          m = round_half_even (p * pow2 (- e)) (q * pow2 e)
      in real_of_int (m * pow2 e) / real_of_int (pow2 (- e)))"

definition double_quotient :: "int \<Rightarrow> int \<Rightarrow> real" where
  "double_quotient p q =
     (if p = 0 then 0
      else if 0 < p then double_quotient_pos p q
      else - double_quotient_pos (- p) q)"


section \<open>The authentication service\<close>

text \<open>
  \<open>User\<close> and \<open>DecodedToken\<close> are the interfaces of the service. The fields of
  \<open>User\<close> carry a prefix, because \<open>id\<close> is a constant of HOL and the other names are
  fields of \<open>DecodedToken\<close> too; \<open>exp\<close> is \<open>exp'\<close> for the same reason.
\<close>

record User =
  user_id :: string
  user_username :: string
  user_email :: string
  user_role :: string

record DecodedToken =
  sub :: string
  username :: string
  email :: string
  role :: string
  exp' :: real

text \<open>
  \<open>jwtDecode\<close> comes from the package jwt-decode and is a parameter of the model: it
  returns the claims of a token or throws.
\<close>

type_synonym decoder = "string \<Rightarrow> js_error + DecodedToken"

text \<open>The object \<open>{ isAuthenticated, user }\<close> that \<open>checkAuth\<close> returns.\<close>

record session =
  isAuthenticated :: bool
  user :: "User option"

definition unauthenticated :: session where
  "unauthenticated = \<lparr>isAuthenticated = False, user = None\<rparr>"

text \<open>
  \<open>logout\<close> of the service removes the token and loads the login page.
\<close>

definition logout :: "browser \<Rightarrow> browser" where
  "logout w = set_location_href ''/login'' (removeItem ''auth_token'' w)"

text \<open>
  \<open>checkAuth\<close>. \<open>now_ms\<close> is the value of \<open>Date.now()\<close>, in milliseconds. A missing
  key reads as \<open>null\<close>; \<open>!token\<close> holds for \<open>null\<close> and for the empty string. The
  body of the \<open>try\<close> either throws (the decoder did), or returns; the \<open>catch\<close>
  removes the token.
\<close>

definition checkAuth_try :: "decoder \<Rightarrow> int \<Rightarrow> string \<Rightarrow> browser \<Rightarrow> (js_error + session) \<times> browser" where
  "checkAuth_try jwtDecode now_ms token w =
     (case jwtDecode token of
        Inl e \<Rightarrow> (Inl e, w)
      | Inr decoded \<Rightarrow>
          (let currentTime = double_quotient now_ms 1000 in
           if exp' decoded < currentTime
           then (Inr unauthenticated, removeItem ''auth_token'' w)
           else
             (Inr \<lparr>isAuthenticated = True,
                   user = Some \<lparr>user_id = sub decoded, user_username = username decoded,
                                user_email = email decoded, user_role = role decoded\<rparr>\<rparr>,
              w)))"

definition checkAuth_catch :: "js_error \<Rightarrow> browser \<Rightarrow> (js_error + session) \<times> browser" where
  "checkAuth_catch error w = (Inr unauthenticated, removeItem ''auth_token'' w)"

definition checkAuth :: "decoder \<Rightarrow> int \<Rightarrow> browser \<Rightarrow> (js_error + session) \<times> browser" where
  "checkAuth jwtDecode now_ms w =
     (case getItem ''auth_token'' w of
        None \<Rightarrow> (Inr unauthenticated, w)
      | Some token \<Rightarrow>
          if \<not> truthy (Some token) then (Inr unauthenticated, w)
          else try_catch (checkAuth_try jwtDecode now_ms token) checkAuth_catch w)"


text \<open>
  \<open>login\<close>. Inside the \<open>try\<close> the rejection of the client, a \<open>TypeError\<close> of the
  destructuring of a missing body, or the decoder may throw; the \<open>catch\<close> logs and
  throws the one error of the service. An object without \<open>access_token\<close> stores the
  text of \<open>undefined\<close>, on which the decoder throws.
\<close>

record AuthResponse =
  access_token :: string
  token_type :: string

definition login_try ::
  "decoder \<Rightarrow> (config \<Rightarrow> AuthResponse reply) \<Rightarrow> string \<Rightarrow> string \<Rightarrow> browser
     \<Rightarrow> ((AuthResponse rejection + js_error) + User) \<times> browser" where
  "login_try jwtDecode server username' password' w =
     (let formData = [(''username'', username'), (''password'', password')] in
      case axios_post server AuthTokenUrl (Some formData) w of
        (Inl rejected, w1) \<Rightarrow> (Inl (Inl rejected), w1)
      | (Inr res, w1) \<Rightarrow>
          (case data res of
             Null \<Rightarrow> (Inl (Inr TypeError), w1)
           | Obj _ \<Rightarrow> (Inl (Inr InvalidTokenError), setItem ''auth_token'' ''undefined'' w1)
           | Data auth \<Rightarrow>
               (let w2 = setItem ''auth_token'' (access_token auth) w1 in
                case jwtDecode (access_token auth) of
                  Inl e \<Rightarrow> (Inl (Inr e), w2)
                | Inr decoded \<Rightarrow>
                    (Inr \<lparr>user_id = sub decoded, user_username = username decoded,
                          user_email = email decoded, user_role = role decoded\<rparr>, w2))))"

definition login_catch ::
  "AuthResponse rejection + js_error \<Rightarrow> browser \<Rightarrow> (js_error + User) \<times> browser" where
  "login_catch error w = (Inl (Error InvalidCredentialsText), console_error w)"

definition login ::
  "decoder \<Rightarrow> (config \<Rightarrow> AuthResponse reply) \<Rightarrow> string \<Rightarrow> string \<Rightarrow> browser
     \<Rightarrow> (js_error + User) \<times> browser" where
  "login jwtDecode server username' password' w =
     try_catch (login_try jwtDecode server username' password') login_catch w"


section \<open>The header component\<close>

text \<open>
  \<open>handleLogout\<close> of the header logs a line and changes the route; its comment announces
  the clearing of the token as future work.
\<close>

definition handleLogout :: "browser \<Rightarrow> browser" where
  "handleLogout w = navigate ''/login'' (console_log w)"

section \<open>The logs service and the log viewer\<close>

record LogsResponse =
  logs :: "string list"
  total_lines :: int
  returned_lines :: int

text \<open>\<open>getLogs\<close> returns the body of the response, or rejects as the client did.\<close>

definition getLogs ::
  "(config \<Rightarrow> LogsResponse reply) \<Rightarrow> int \<Rightarrow> browser
     \<Rightarrow> (LogsResponse rejection + LogsResponse body) \<times> browser" where
  "getLogs server lines w =
     (case axios_get server (LogsUrl lines) w of
        (Inl rejected, w1) \<Rightarrow> (Inl rejected, w1)
      | (Inr res, w1) \<Rightarrow> (Inr (data res), w1))"

text \<open>
  The state of the viewer component (its four \<open>useState\<close> cells). \<open>None\<close> in \<open>logs'\<close> or
  \<open>totalLines\<close> is \<open>undefined\<close>, which the setters receive from an object that is no
  \<open>LogsResponse\<close>. The state \<open>logs\<close> is primed to keep it apart from the field of the
  response.
\<close>

record viewer =
  logs' :: "string list option"
  totalLines :: "int option"
  isLoading :: bool
  linesLimit :: int

definition initial_viewer :: viewer where
  "initial_viewer = \<lparr>logs' = Some [], totalLines = Some 0, isLoading = False, linesLimit = 100\<rparr>"

text \<open>
  \<open>fetchLogs\<close>: \<open>setIsLoading(true)\<close>, the \<open>try\<close> with its two setters, the \<open>catch\<close> that
  only logs, and the \<open>finally\<close> that resets the flag.
\<close>

definition fetchLogs_try ::
  "(config \<Rightarrow> LogsResponse reply) \<Rightarrow> viewer \<times> browser
     \<Rightarrow> ((LogsResponse rejection + js_error) + unit) \<times> (viewer \<times> browser)" where
  "fetchLogs_try server s =
     (case s of (v, w) \<Rightarrow>
        (case getLogs server (linesLimit v) w of
           (Inl rejected, w1) \<Rightarrow> (Inl (Inl rejected), (v, w1))
         | (Inr res, w1) \<Rightarrow>
             (case res of
                Null \<Rightarrow> (Inl (Inr TypeError), (v, w1))
              | Obj _ \<Rightarrow> (Inr (), (v\<lparr>logs' := None, totalLines := None\<rparr>, w1))
              | Data r \<Rightarrow>
                  (Inr (), (v\<lparr>logs' := Some (logs r), totalLines := Some (total_lines r)\<rparr>, w1)))))"

definition fetchLogs_catch ::
  "LogsResponse rejection + js_error \<Rightarrow> viewer \<times> browser
     \<Rightarrow> (js_error + unit) \<times> (viewer \<times> browser)" where
  "fetchLogs_catch error s = (case s of (v, w) \<Rightarrow> (Inr (), (v, console_error w)))"

definition fetchLogs ::
  "(config \<Rightarrow> LogsResponse reply) \<Rightarrow> viewer \<times> browser
     \<Rightarrow> (js_error + unit) \<times> (viewer \<times> browser)" where
  "fetchLogs server s =
     (case s of (v, w) \<Rightarrow>
        (case try_catch (fetchLogs_try server) fetchLogs_catch (v\<lparr>isLoading := True\<rparr>, w) of
           (result, (v1, w1)) \<Rightarrow> (result, (v1\<lparr>isLoading := False\<rparr>, w1))))"


section \<open>Example data\<close>

text \<open>
  A token, the claims it stands for, and a decoder that knows this one token and throws
  on every other string (the empty one included, in which jwt-decode finds no payload
  segment). Its expiry is the second 1700000000.
\<close>

definition sample_token :: string where
  "sample_token = ''header.payload.signature''"

definition sample_claims :: DecodedToken where
  "sample_claims = \<lparr>sub = ''42'', username = ''admin'', email = ''admin@example.org'',
     role = ''admin'', exp' = 1700000000\<rparr>"

text \<open>The user these claims describe.\<close>

definition sample_user :: User where
  "sample_user = \<lparr>user_id = ''42'', user_username = ''admin'',
     user_email = ''admin@example.org'', user_role = ''admin''\<rparr>"

definition sample_decoder :: decoder where
  "sample_decoder t = (if t = sample_token then Inr sample_claims else Inl InvalidTokenError)"

text \<open>A browser on the dashboard with \<open>t\<close> stored as the token, and one with empty storage.\<close>

definition sample_browser :: "string \<Rightarrow> browser" where
  "sample_browser t =
     \<lparr>localStorage = [''auth_token'' \<mapsto> t], href = ''/dashboard'', events = []\<rparr>"

definition fresh_browser :: browser where
  "fresh_browser = \<lparr>localStorage = Map.empty, href = ''/login'', events = []\<rparr>"

text \<open>
  Three backends: one that issues the sample token to \<open>admin\<close>/\<open>secret\<close> and answers 401
  otherwise, one that serves two log lines to a bearer of the sample token, and one that
  is unreachable.
\<close>

definition auth_server :: "config \<Rightarrow> AuthResponse reply" where
  "auth_server c =
     (if formData c = Some [(''username'', ''admin''), (''password'', ''secret'')]
      then Response \<lparr>status = 200,
             data = Data \<lparr>access_token = sample_token, token_type = ''bearer''\<rparr>\<rparr>
      else Response \<lparr>status = 401, data = Obj (Some ''Incorrect username or password'')\<rparr>)"

definition logs_server :: "config \<Rightarrow> LogsResponse reply" where
  "logs_server c =
     (case headers c of
        None \<Rightarrow> Response \<lparr>status = 401, data = Obj (Some ''Not authenticated'')\<rparr>
      | Some h \<Rightarrow>
          if h ''Authorization'' = Some (''Bearer '' @ sample_token)
          then Response \<lparr>status = 200,
                 data = Data \<lparr>logs = [''a'', ''b''], total_lines = 2, returned_lines = 2\<rparr>\<rparr>
          else Response \<lparr>status = 401, data = Obj (Some ''Not authenticated'')\<rparr>)"

definition offline_server :: "config \<Rightarrow> 'd reply" where
  "offline_server c = NoResponse ''Network Error''"

text \<open>The error of a 401 response without a body.\<close>

definition unauthorized :: "unit axios_error" where
  "unauthorized = \<lparr>response = Some \<lparr>status = 401, data = Null\<rparr>, message = ''Request failed''\<rparr>"


section \<open>Unfolding rules\<close>

lemmas browser_defs = getItem_def setItem_def removeItem_def set_location_href_def navigate_def
  console_log_def console_error_def token_removals_def

lemmas sample_defs = sample_token_def sample_claims_def sample_user_def sample_decoder_def
  sample_browser_def
  fresh_browser_def auth_server_def logs_server_def offline_server_def unauthorized_def

lemmas client_defs = axios_request_def axios_get_def axios_post_def get_config_def post_config_def
  request_onFulfilled_def response_onFulfilled_def response_onRejected_def validateStatus_def
  detail_message_def default_headers_def

lemmas auth_defs = checkAuth_def checkAuth_try_def checkAuth_catch_def try_catch_def truthy_def
  login_def login_try_def login_catch_def unauthenticated_def Let_def


section \<open>The clock at sample readings\<close>

text \<open>
  The current time in seconds, as the double division gives it, at the millisecond of the
  sample token's expiry, shortly before and shortly after. The quotient at 1700000000007
  shows the rounding: the exact 1700000000.007 is no double, and its nearest double lies
  below it.
\<close>

lemma currentTime_at_expiry: "double_quotient 1700000000000 1000 = 1700000000"
  by code_simp

lemma currentTime_before_expiry: "double_quotient 1699999999000 1000 = 1699999999"
  by code_simp

lemma currentTime_after_expiry: "1700000000 < double_quotient 1700000000001 1000"
  by code_simp

lemma currentTime_rounded:
  "double_quotient 1700000000007 1000 = 1700000000.006999969482421875"
  by code_simp


section \<open>A 401 response\<close>

text \<open>
  C1, as the code has it. The error handler of the response interceptor, given a response
  of status 401, assigns \<open>/login\<close> to the location and does nothing else to the browser:
  storage is as before and the token has been removed no more often than before. It
  rejects with the normalized object of the response. Whatever the request and the
  backend, a reply of status 401 ends in this handler.
\<close>

theorem unauthorized_response_navigates_only:
  assumes "response error = Some r" and "status r = 401"
  shows "snd (response_onRejected error w) = set_location_href ''/login'' w
    \<and> href (snd (response_onRejected error w)) = ''/login''
    \<and> localStorage (snd (response_onRejected error w)) = localStorage w
    \<and> token_removals (snd (response_onRejected error w)) = token_removals w
    \<and> fst (response_onRejected error w) =
        Inl \<lparr>status' = 401, message' = detail_message (data r), data' = Some (data r)\<rparr>
    \<and> (\<forall>server config. server (request_onFulfilled config w) = Response r \<longrightarrow>
          snd (axios_request server config w) = set_location_href ''/login'' w)"
  using assms
  by (simp add: response_onRejected_def set_location_href_def token_removals_def
      axios_request_def validateStatus_def)

text \<open>The theorem at a 401 without body, in a browser that holds the sample token.\<close>

theorem unauthorized_response_navigates_only_witness:
  "response unauthorized = Some \<lparr>status = 401, data = Null\<rparr>
   \<and> snd (response_onRejected unauthorized (sample_browser sample_token))
       = set_location_href ''/login'' (sample_browser sample_token)
   \<and> href (snd (response_onRejected unauthorized (sample_browser sample_token))) = ''/login''
   \<and> getItem ''auth_token'' (snd (response_onRejected unauthorized (sample_browser sample_token)))
       = Some sample_token"
  using unauthorized_response_navigates_only
    [of unauthorized "\<lparr>status = 401, data = Null\<rparr>" "sample_browser sample_token"]
  by (simp add: sample_defs browser_defs)

text \<open>
  C1 as stated fails: after the 401 the token is still stored, and it was removed zero
  times, not once.
\<close>

theorem unauthorized_response_counterexample:
  "getItem ''auth_token'' (sample_browser sample_token) = Some sample_token
   \<and> getItem ''auth_token'' (snd (response_onRejected unauthorized (sample_browser sample_token)))
       = Some sample_token
   \<and> token_removals (snd (response_onRejected unauthorized (sample_browser sample_token))) = 0"
  by (simp add: unauthorized_def sample_browser_def response_onRejected_def browser_defs)


section \<open>Checking the session\<close>

text \<open>
  C2, as the code has it. The decoder throws on the empty string. The current time of
  \<open>checkAuth\<close> is the double \<open>Date.now() / 1000\<close>. For every stored token whose decoded
  expiry is strictly before that time, \<open>checkAuth\<close> returns the unauthenticated state
  and removes the token, once. For every stored token whose decoded expiry equals that
  time, it returns the authenticated state with the user of the claims and leaves the
  browser as it was.
\<close>

theorem expired_token_is_cleared:
  assumes "getItem ''auth_token'' w = Some token"
    and "isl (jwtDecode [])"
    and "jwtDecode token = Inr decoded"
  shows "(exp' decoded < double_quotient now_ms 1000 \<longrightarrow>
            checkAuth jwtDecode now_ms w = (Inr unauthenticated, removeItem ''auth_token'' w)
          \<and> getItem ''auth_token'' (snd (checkAuth jwtDecode now_ms w)) = None
          \<and> token_removals (snd (checkAuth jwtDecode now_ms w)) = Suc (token_removals w))
    \<and> (exp' decoded = double_quotient now_ms 1000 \<longrightarrow>
            checkAuth jwtDecode now_ms w
              = (Inr \<lparr>isAuthenticated = True,
                      user = Some \<lparr>user_id = sub decoded, user_username = username decoded,
                                   user_email = email decoded, user_role = role decoded\<rparr>\<rparr>,
                 w))"
proof (intro conjI impI)
  from assms(2,3) have ne: "token \<noteq> []" by auto
  {
    assume "exp' decoded < double_quotient now_ms 1000"
    with ne assms(1,3)
    show c: "checkAuth jwtDecode now_ms w = (Inr unauthenticated, removeItem ''auth_token'' w)"
      by (simp add: checkAuth_def truthy_def try_catch_def checkAuth_try_def)
    show "getItem ''auth_token'' (snd (checkAuth jwtDecode now_ms w)) = None"
      by (simp add: c getItem_def removeItem_def)
    show "token_removals (snd (checkAuth jwtDecode now_ms w)) = Suc (token_removals w)"
      by (simp add: c token_removals_def removeItem_def)
  }
  {
    assume "exp' decoded = double_quotient now_ms 1000"
    with ne assms(1,3)
    show "checkAuth jwtDecode now_ms w
            = (Inr \<lparr>isAuthenticated = True,
                    user = Some \<lparr>user_id = sub decoded, user_username = username decoded,
                                 user_email = email decoded, user_role = role decoded\<rparr>\<rparr>,
               w)"
      by (simp add: checkAuth_def truthy_def try_catch_def checkAuth_try_def)
  }
qed

text \<open>
  The theorem one millisecond after the sample token expired, and at the millisecond of
  its expiry.
\<close>

theorem expired_token_is_cleared_witness:
  "getItem ''auth_token'' (sample_browser sample_token) = Some sample_token
   \<and> isl (sample_decoder [])
   \<and> sample_decoder sample_token = Inr sample_claims
   \<and> exp' sample_claims < double_quotient 1700000000001 1000
   \<and> checkAuth sample_decoder 1700000000001 (sample_browser sample_token)
       = (Inr unauthenticated, removeItem ''auth_token'' (sample_browser sample_token))
   \<and> getItem ''auth_token''
        (snd (checkAuth sample_decoder 1700000000001 (sample_browser sample_token))) = None
   \<and> exp' sample_claims = double_quotient 1700000000000 1000
   \<and> checkAuth sample_decoder 1700000000000 (sample_browser sample_token)
       = (Inr \<lparr>isAuthenticated = True, user = Some sample_user\<rparr>, sample_browser sample_token)"
proof -
  have h1: "getItem ''auth_token'' (sample_browser sample_token) = Some sample_token"
    by (simp add: sample_defs browser_defs)
  have h2: "isl (sample_decoder [])" by (simp add: sample_defs)
  have h3: "sample_decoder sample_token = Inr sample_claims" by (simp add: sample_defs)
  have late: "exp' sample_claims < double_quotient 1700000000001 1000"
    using currentTime_after_expiry by (simp add: sample_claims_def)
  have now: "exp' sample_claims = double_quotient 1700000000000 1000"
    using currentTime_at_expiry by (simp add: sample_claims_def)
  have u: "\<lparr>user_id = sub sample_claims, user_username = username sample_claims,
            user_email = email sample_claims, user_role = role sample_claims\<rparr> = sample_user"
    by (simp add: sample_claims_def sample_user_def)
  from expired_token_is_cleared [where jwtDecode = sample_decoder and now_ms = 1700000000001,
      OF h1 h2 h3] late
  have a: "checkAuth sample_decoder 1700000000001 (sample_browser sample_token)
             = (Inr unauthenticated, removeItem ''auth_token'' (sample_browser sample_token))
         \<and> getItem ''auth_token''
              (snd (checkAuth sample_decoder 1700000000001 (sample_browser sample_token))) = None"
    by blast
  from expired_token_is_cleared [where jwtDecode = sample_decoder and now_ms = 1700000000000,
      OF h1 h2 h3] now
  have b: "checkAuth sample_decoder 1700000000000 (sample_browser sample_token)
             = (Inr \<lparr>isAuthenticated = True, user = Some sample_user\<rparr>,
                sample_browser sample_token)"
    unfolding u by blast
  from h1 h2 h3 late now a b show ?thesis by blast
qed

text \<open>
  C2 as stated fails where the expiry equals the current time: the comparison of the
  code is strict, the session is authenticated and the token stays.
\<close>

theorem token_expiring_now_counterexample:
  "sample_decoder sample_token = Inr sample_claims
   \<and> exp' sample_claims \<le> double_quotient 1700000000000 1000
   \<and> fst (checkAuth sample_decoder 1700000000000 (sample_browser sample_token))
       = Inr \<lparr>isAuthenticated = True, user = Some sample_user\<rparr>
   \<and> getItem ''auth_token''
        (snd (checkAuth sample_decoder 1700000000000 (sample_browser sample_token)))
       = Some sample_token"
  by (simp add: auth_defs sample_defs getItem_def currentTime_at_expiry)

text \<open>
  C3, as the code has it. \<open>checkAuth\<close> never throws. For every stored token that is not
  the empty string and on which the decoder throws, it returns the unauthenticated state
  and removes the token. A stored empty string counts as no token: the result is the
  unauthenticated state and the browser is left as it was.
\<close>

theorem undecodable_token_is_cleared_silently:
  "\<not> isl (fst (checkAuth jwtDecode now_ms w))
   \<and> (getItem ''auth_token'' w = Some token \<and> token \<noteq> [] \<and> isl (jwtDecode token) \<longrightarrow>
        checkAuth jwtDecode now_ms w = (Inr unauthenticated, removeItem ''auth_token'' w)
        \<and> getItem ''auth_token'' (snd (checkAuth jwtDecode now_ms w)) = None)
   \<and> (getItem ''auth_token'' w = Some [] \<longrightarrow>
        checkAuth jwtDecode now_ms w = (Inr unauthenticated, w))"
proof (intro conjI impI)
  show "\<not> isl (fst (checkAuth jwtDecode now_ms w))"
    by (simp add: checkAuth_def try_catch_def checkAuth_try_def checkAuth_catch_def
        split: option.splits sum.splits)
next
  assume h: "getItem ''auth_token'' w = Some token \<and> token \<noteq> [] \<and> isl (jwtDecode token)"
  then obtain e where "jwtDecode token = Inl e" by (auto simp: isl_def)
  with h show c: "checkAuth jwtDecode now_ms w = (Inr unauthenticated, removeItem ''auth_token'' w)"
    by (simp add: checkAuth_def truthy_def try_catch_def checkAuth_try_def checkAuth_catch_def)
  show "getItem ''auth_token'' (snd (checkAuth jwtDecode now_ms w)) = None"
    by (simp add: c getItem_def removeItem_def)
next
  assume "getItem ''auth_token'' w = Some []"
  then show "checkAuth jwtDecode now_ms w = (Inr unauthenticated, w)"
    by (simp add: checkAuth_def truthy_def)
qed

text \<open>The theorem at a stored string that is no token.\<close>

theorem undecodable_token_is_cleared_silently_witness:
  "getItem ''auth_token'' (sample_browser ''garbage'') = Some ''garbage''
   \<and> isl (sample_decoder ''garbage'')
   \<and> checkAuth sample_decoder 0 (sample_browser ''garbage'')
       = (Inr unauthenticated, removeItem ''auth_token'' (sample_browser ''garbage''))
   \<and> getItem ''auth_token'' (snd (checkAuth sample_decoder 0 (sample_browser ''garbage''))) = None"
  using undecodable_token_is_cleared_silently
    [of sample_decoder 0 "sample_browser ''garbage''" "''garbage''"]
  by (simp add: sample_defs browser_defs)

text \<open>
  C3 as stated fails at the empty string: the decoder throws on it, and \<open>checkAuth\<close>
  returns the unauthenticated state but leaves it in storage.
\<close>

theorem empty_token_counterexample:
  "getItem ''auth_token'' (sample_browser []) = Some []
   \<and> isl (sample_decoder [])
   \<and> fst (checkAuth sample_decoder 0 (sample_browser [])) = Inr unauthenticated
   \<and> getItem ''auth_token'' (snd (checkAuth sample_decoder 0 (sample_browser []))) = Some []
   \<and> token_removals (snd (checkAuth sample_decoder 0 (sample_browser []))) = 0"
  by (simp add: auth_defs sample_defs browser_defs)

text \<open>
  C9, as the code has it. Each call of \<open>checkAuth\<close> reads the clock. Run again in the
  browser the first call left,
  \<^item> at the same reading of the clock, \<open>checkAuth\<close> returns what the first call returned
    and leaves the browser (storage and events) exactly as it found it;
  \<^item> after an unauthenticated first result it does so at any reading of the clock;
  \<^item> after an authenticated first result it does so at every reading at which the token
    has not expired, and at a reading at which the token has expired it returns the
    unauthenticated state and removes the token.
\<close>

theorem checkAuth_twice:
  "checkAuth jwtDecode now_ms (snd (checkAuth jwtDecode now_ms w)) = checkAuth jwtDecode now_ms w
   \<and> (fst (checkAuth jwtDecode now_ms w) = Inr unauthenticated \<longrightarrow>
        checkAuth jwtDecode later_ms (snd (checkAuth jwtDecode now_ms w))
          = (Inr unauthenticated, snd (checkAuth jwtDecode now_ms w)))
   \<and> (getItem ''auth_token'' w = Some token \<and> token \<noteq> [] \<and> jwtDecode token = Inr decoded
        \<and> \<not> exp' decoded < double_quotient now_ms 1000 \<longrightarrow>
        (\<not> exp' decoded < double_quotient later_ms 1000 \<longrightarrow>
           checkAuth jwtDecode later_ms (snd (checkAuth jwtDecode now_ms w))
             = checkAuth jwtDecode now_ms w
         \<and> snd (checkAuth jwtDecode now_ms w) = w
         \<and> fst (checkAuth jwtDecode now_ms w)
             = Inr \<lparr>isAuthenticated = True,
                    user = Some \<lparr>user_id = sub decoded, user_username = username decoded,
                                 user_email = email decoded, user_role = role decoded\<rparr>\<rparr>)
        \<and> (exp' decoded < double_quotient later_ms 1000 \<longrightarrow>
           checkAuth jwtDecode later_ms (snd (checkAuth jwtDecode now_ms w))
             = (Inr unauthenticated, removeItem ''auth_token'' w)))"
  by (auto simp: checkAuth_def checkAuth_try_def checkAuth_catch_def try_catch_def truthy_def
      getItem_def removeItem_def unauthenticated_def Let_def split: option.splits sum.splits)

text \<open>
  The theorem at the sample token: two calls one second before its expiry, and a first
  call after its expiry followed by a later one.
\<close>

theorem checkAuth_twice_witness:
  "getItem ''auth_token'' (sample_browser sample_token) = Some sample_token
   \<and> sample_decoder sample_token = Inr sample_claims
   \<and> \<not> exp' sample_claims < double_quotient 1699999999000 1000
   \<and> \<not> exp' sample_claims < double_quotient 1700000000000 1000
   \<and> checkAuth sample_decoder 1700000000000
        (snd (checkAuth sample_decoder 1699999999000 (sample_browser sample_token)))
       = checkAuth sample_decoder 1699999999000 (sample_browser sample_token)
   \<and> fst (checkAuth sample_decoder 1699999999000 (sample_browser sample_token))
       = Inr \<lparr>isAuthenticated = True, user = Some sample_user\<rparr>
   \<and> fst (checkAuth sample_decoder 1700000000001 (sample_browser sample_token))
       = Inr unauthenticated
   \<and> checkAuth sample_decoder 1700000000002
        (snd (checkAuth sample_decoder 1700000000001 (sample_browser sample_token)))
       = (Inr unauthenticated,
          snd (checkAuth sample_decoder 1700000000001 (sample_browser sample_token)))"
proof -
  have h1: "getItem ''auth_token'' (sample_browser sample_token) = Some sample_token"
    by (simp add: sample_defs browser_defs)
  have h2: "sample_token \<noteq> []" by (simp add: sample_token_def)
  have h3: "sample_decoder sample_token = Inr sample_claims" by (simp add: sample_defs)
  have early: "\<not> exp' sample_claims < double_quotient 1699999999000 1000"
    by (simp add: currentTime_before_expiry sample_claims_def)
  have now: "\<not> exp' sample_claims < double_quotient 1700000000000 1000"
    by (simp add: currentTime_at_expiry sample_claims_def)
  have u: "\<lparr>user_id = sub sample_claims, user_username = username sample_claims,
            user_email = email sample_claims, user_role = role sample_claims\<rparr> = sample_user"
    by (simp add: sample_claims_def sample_user_def)
  have un: "fst (checkAuth sample_decoder 1700000000001 (sample_browser sample_token))
              = Inr unauthenticated"
    using currentTime_after_expiry by (simp add: auth_defs sample_defs browser_defs)
  from checkAuth_twice
    [of sample_decoder 1699999999000 "sample_browser sample_token" 1700000000000
        sample_token sample_claims] h1 h2 h3 early now
  have a: "checkAuth sample_decoder 1700000000000
             (snd (checkAuth sample_decoder 1699999999000 (sample_browser sample_token)))
            = checkAuth sample_decoder 1699999999000 (sample_browser sample_token)
         \<and> fst (checkAuth sample_decoder 1699999999000 (sample_browser sample_token))
            = Inr \<lparr>isAuthenticated = True, user = Some sample_user\<rparr>"
    unfolding u by blast
  from checkAuth_twice
    [of sample_decoder 1700000000001 "sample_browser sample_token" 1700000000002
        sample_token sample_claims] un
  have b: "checkAuth sample_decoder 1700000000002
             (snd (checkAuth sample_decoder 1700000000001 (sample_browser sample_token)))
            = (Inr unauthenticated,
               snd (checkAuth sample_decoder 1700000000001 (sample_browser sample_token)))"
    by blast
  from h1 h3 early now un a b show ?thesis by blast
qed

text \<open>
  C9 as stated fails when the token expires between the two calls: at the millisecond of
  its expiry the sample token is still accepted, and one millisecond later the second
  call returns the unauthenticated state and removes the token.
\<close>

theorem token_expiring_between_calls_counterexample:
  "fst (checkAuth sample_decoder 1700000000000 (sample_browser sample_token))
     = Inr \<lparr>isAuthenticated = True, user = Some sample_user\<rparr>
   \<and> fst (checkAuth sample_decoder 1700000000001
        (snd (checkAuth sample_decoder 1700000000000 (sample_browser sample_token))))
     = Inr unauthenticated
   \<and> getItem ''auth_token''
        (snd (checkAuth sample_decoder 1700000000000 (sample_browser sample_token)))
     = Some sample_token
   \<and> getItem ''auth_token''
        (snd (checkAuth sample_decoder 1700000000001
          (snd (checkAuth sample_decoder 1700000000000 (sample_browser sample_token)))))
     = None"
  using currentTime_after_expiry
  by (simp add: auth_defs sample_defs browser_defs currentTime_at_expiry)


section \<open>Logging in\<close>

text \<open>
  C4. When the request that submits the credentials fails, because no response arrives
  or because the response's status is outside 200..299, \<open>login\<close> throws its one error
  and the storage is what it was before the call.
\<close>

theorem failed_login_keeps_storage:
  assumes "server (request_onFulfilled
             (post_config AuthTokenUrl (Some [(''username'', u), (''password'', p)])) w) = reply"
    and "(\<exists>m. reply = NoResponse m) \<or> (\<exists>r. reply = Response r \<and> \<not> validateStatus (status r))"
  shows "fst (login jwtDecode server u p w) = Inl (Error InvalidCredentialsText)
    \<and> localStorage (snd (login jwtDecode server u p w)) = localStorage w"
  using assms
  by (auto simp: login_def login_try_def login_catch_def try_catch_def axios_post_def
      axios_request_def response_onRejected_def console_error_def set_location_href_def)

text \<open>The theorem at a wrong password (a 401) and at an unreachable backend.\<close>

theorem failed_login_keeps_storage_witness:
  "\<not> validateStatus 401
   \<and> fst (login sample_decoder auth_server ''admin'' ''wrong'' fresh_browser)
       = Inl (Error InvalidCredentialsText)
   \<and> localStorage (snd (login sample_decoder auth_server ''admin'' ''wrong'' fresh_browser))
       = localStorage fresh_browser
   \<and> fst (login sample_decoder offline_server ''admin'' ''secret'' fresh_browser)
       = Inl (Error InvalidCredentialsText)
   \<and> localStorage (snd (login sample_decoder offline_server ''admin'' ''secret'' fresh_browser))
       = localStorage fresh_browser"
  using failed_login_keeps_storage
    [of auth_server "''admin''" "''wrong''" fresh_browser
        "Response \<lparr>status = 401, data = Obj (Some ''Incorrect username or password'')\<rparr>"
        sample_decoder]
    failed_login_keeps_storage
    [of offline_server "''admin''" "''secret''" fresh_browser "NoResponse ''Network Error''"
        sample_decoder]
  by (simp add: sample_defs client_defs browser_defs)

text \<open>
  C5. The decoder throws on the empty string. When the backend answers the submission
  with a 2xx response that carries an \<open>access_token\<close> the decoder accepts, \<open>login\<close>
  stores that token and returns the user whose id is the token's \<open>sub\<close> and whose
  username, email and role are the token's; and \<open>checkAuth\<close>, run in the browser
  \<open>login\<close> left at a time at which the token has not expired, returns the
  authenticated state with the user of these same four claims and changes nothing.
\<close>

theorem session_after_login:
  assumes "server (request_onFulfilled
             (post_config AuthTokenUrl (Some [(''username'', u), (''password'', p)])) w) = Response r"
    and "validateStatus (status r)"
    and "data r = Data auth"
    and "isl (jwtDecode [])"
    and "jwtDecode (access_token auth) = Inr decoded"
    and "\<not> exp' decoded < double_quotient now_ms 1000"
  shows "login jwtDecode server u p w
           = (Inr \<lparr>user_id = sub decoded, user_username = username decoded,
                    user_email = email decoded, user_role = role decoded\<rparr>,
              setItem ''auth_token'' (access_token auth) w)
    \<and> getItem ''auth_token'' (snd (login jwtDecode server u p w)) = Some (access_token auth)
    \<and> checkAuth jwtDecode now_ms (snd (login jwtDecode server u p w))
           = (Inr \<lparr>isAuthenticated = True,
                    user = Some \<lparr>user_id = sub decoded, user_username = username decoded,
                                 user_email = email decoded, user_role = role decoded\<rparr>\<rparr>,
              snd (login jwtDecode server u p w))"
proof -
  from assms(4,5) have ne: "access_token auth \<noteq> []" by auto
  from assms(1,2,3,5)
  have l: "login jwtDecode server u p w
             = (Inr \<lparr>user_id = sub decoded, user_username = username decoded,
                      user_email = email decoded, user_role = role decoded\<rparr>,
                setItem ''auth_token'' (access_token auth) w)"
    by (simp add: login_def login_try_def try_catch_def axios_post_def axios_request_def
        response_onFulfilled_def)
  have g: "getItem ''auth_token'' (setItem ''auth_token'' (access_token auth) w)
          = Some (access_token auth)"
    by (simp add: getItem_def setItem_def)
  with ne assms(5,6)
  have "checkAuth jwtDecode now_ms (setItem ''auth_token'' (access_token auth) w)
          = (Inr \<lparr>isAuthenticated = True,
                  user = Some \<lparr>user_id = sub decoded, user_username = username decoded,
                               user_email = email decoded, user_role = role decoded\<rparr>\<rparr>,
             setItem ''auth_token'' (access_token auth) w)"
    by (simp add: checkAuth_def truthy_def try_catch_def checkAuth_try_def)
  with l g show ?thesis by simp
qed

text \<open>The theorem at the sample backend, one second before the sample token expires.\<close>

theorem session_after_login_witness:
  "validateStatus 200
   \<and> isl (sample_decoder [])
   \<and> \<not> exp' sample_claims < double_quotient 1699999999000 1000
   \<and> login sample_decoder auth_server ''admin'' ''secret'' fresh_browser
       = (Inr sample_user, setItem ''auth_token'' sample_token fresh_browser)
   \<and> checkAuth sample_decoder 1699999999000
        (snd (login sample_decoder auth_server ''admin'' ''secret'' fresh_browser))
       = (Inr \<lparr>isAuthenticated = True, user = Some sample_user\<rparr>,
          snd (login sample_decoder auth_server ''admin'' ''secret'' fresh_browser))"
proof -
  let ?auth = "\<lparr>access_token = sample_token, token_type = ''bearer''\<rparr>"
  let ?r = "\<lparr>status = 200, data = Data ?auth\<rparr>"
  have h1: "auth_server (request_onFulfilled
              (post_config AuthTokenUrl (Some [(''username'', ''admin''), (''password'', ''secret'')]))
              fresh_browser) = Response ?r"
    by (simp add: sample_defs client_defs browser_defs)
  have h2: "validateStatus (status ?r)" by (simp add: validateStatus_def)
  have h3: "data ?r = Data ?auth" by simp
  have h4: "isl (sample_decoder [])" by (simp add: sample_defs)
  have h5: "sample_decoder (access_token ?auth) = Inr sample_claims" by (simp add: sample_defs)
  have h6: "\<not> exp' sample_claims < double_quotient 1699999999000 1000"
    by (simp add: currentTime_before_expiry sample_claims_def)
  have ok: "validateStatus 200" by (simp add: validateStatus_def)
  have u: "\<lparr>user_id = sub sample_claims, user_username = username sample_claims,
            user_email = email sample_claims, user_role = role sample_claims\<rparr> = sample_user"
    by (simp add: sample_claims_def sample_user_def)
  from session_after_login [where server = auth_server and jwtDecode = sample_decoder,
      OF h1 h2 h3 h4 h5 h6] ok h4 h6 show ?thesis
    unfolding AuthResponse.simps u by blast
qed


section \<open>The client's interceptors\<close>

text \<open>
  C7, as the code has it. When a non-empty token is stored and the request has a headers
  object, the request interceptor sets \<open>Authorization\<close> to \<open>Bearer\<close>, a space and the
  token, and changes nothing else. When no token is stored, or the empty string is, or
  the request has no headers object, the request passes unchanged. The interceptor has
  no throwing path: it is a total function to a config.
\<close>

theorem request_interceptor_attaches_token:
  "(getItem ''auth_token'' w = Some t \<and> t \<noteq> [] \<and> headers config = Some h \<longrightarrow>
      request_onFulfilled config w
        = config\<lparr>headers := Some (h(''Authorization'' \<mapsto> ''Bearer '' @ t))\<rparr>)
   \<and> (getItem ''auth_token'' w = None \<or> getItem ''auth_token'' w = Some []
        \<or> headers config = None \<longrightarrow>
      request_onFulfilled config w = config)"
  by (auto simp: request_onFulfilled_def truthy_def Let_def split: option.splits)

text \<open>The theorem at a request for logs, with the sample token stored and with none.\<close>

theorem request_interceptor_attaches_token_witness:
  "getItem ''auth_token'' (sample_browser sample_token) = Some sample_token
   \<and> sample_token \<noteq> []
   \<and> request_onFulfilled (get_config (LogsUrl 100)) (sample_browser sample_token)
       = (get_config (LogsUrl 100))
           \<lparr>headers := Some (default_headers(''Authorization'' \<mapsto> ''Bearer '' @ sample_token))\<rparr>
   \<and> getItem ''auth_token'' fresh_browser = None
   \<and> request_onFulfilled (get_config (LogsUrl 100)) fresh_browser = get_config (LogsUrl 100)"
  using request_interceptor_attaches_token
    [of "sample_browser sample_token" sample_token "get_config (LogsUrl 100)" default_headers]
    request_interceptor_attaches_token
    [of fresh_browser sample_token "get_config (LogsUrl 100)" default_headers]
  by (simp add: sample_token_def sample_browser_def fresh_browser_def getItem_def get_config_def)

text \<open>
  C7 as stated fails: with the empty string stored as the token, the request leaves
  without an \<open>Authorization\<close> header; and with the sample token stored, a request
  without a headers object leaves without one too.
\<close>

theorem token_not_attached_counterexample:
  "getItem ''auth_token'' (sample_browser []) = Some []
   \<and> headers (get_config (LogsUrl 100)) = Some default_headers
   \<and> default_headers ''Authorization'' = None
   \<and> headers (request_onFulfilled (get_config (LogsUrl 100)) (sample_browser []))
       = Some default_headers
   \<and> getItem ''auth_token'' (sample_browser sample_token) = Some sample_token
   \<and> headers (request_onFulfilled ((get_config (LogsUrl 100))\<lparr>headers := None\<rparr>)
        (sample_browser sample_token)) = None"
  by (simp add: sample_browser_def client_defs getItem_def truthy_def)

text \<open>
  C8. A response whose status is outside 200..299 is rejected with the object that
  carries the status of the response, a message (the body's \<open>detail\<close>, or the default
  text) and the body. When no response arrives, the rejection has status 0, a message
  (the transport's, or the default text) and no body.
\<close>

theorem failures_are_normalized:
  assumes "server (request_onFulfilled config w) = reply"
  shows "(\<forall>r. reply = Response r \<and> \<not> (200 \<le> status r \<and> status r < 300) \<longrightarrow>
           fst (axios_request server config w)
             = Inl \<lparr>status' = status r, message' = detail_message (data r),
                    data' = Some (data r)\<rparr>)
    \<and> (\<forall>m. reply = NoResponse m \<longrightarrow>
           fst (axios_request server config w)
             = Inl \<lparr>status' = 0, message' = (if m = [] then NetworkErrorText else Text m),
                    data' = None\<rparr>)"
  using assms
  by (auto simp: axios_request_def response_onRejected_def validateStatus_def truthy_def)

text \<open>The theorem at a 401 of the logs backend and at an unreachable backend.\<close>

theorem failures_are_normalized_witness:
  "fst (axios_request logs_server (get_config (LogsUrl 100)) fresh_browser)
     = Inl \<lparr>status' = 401, message' = Text ''Not authenticated'',
            data' = Some (Obj (Some ''Not authenticated''))\<rparr>
   \<and> fst (axios_request (offline_server :: config \<Rightarrow> LogsResponse reply)
          (get_config (LogsUrl 100)) fresh_browser)
     = Inl \<lparr>status' = 0, message' = Text ''Network Error'', data' = None\<rparr>"
proof -
  let ?r = "\<lparr>status = 401, data = (Obj (Some ''Not authenticated'') :: LogsResponse body)\<rparr>"
  have h1: "logs_server (request_onFulfilled (get_config (LogsUrl 100)) fresh_browser)
              = Response ?r"
    by (simp add: sample_defs client_defs browser_defs)
  have h2: "(offline_server :: config \<Rightarrow> LogsResponse reply)
              (request_onFulfilled (get_config (LogsUrl 100)) fresh_browser)
              = NoResponse ''Network Error''"
    by (simp add: offline_server_def)
  from failures_are_normalized [where server = logs_server, OF h1]
  have a: "fst (axios_request logs_server (get_config (LogsUrl 100)) fresh_browser)
     = Inl \<lparr>status' = 401, message' = Text ''Not authenticated'',
            data' = Some (Obj (Some ''Not authenticated''))\<rparr>"
    by (simp add: detail_message_def truthy_def)
  from failures_are_normalized [where server = offline_server, OF h2]
  have b: "fst (axios_request (offline_server :: config \<Rightarrow> LogsResponse reply)
             (get_config (LogsUrl 100)) fresh_browser)
     = Inl \<lparr>status' = 0, message' = Text ''Network Error'', data' = None\<rparr>"
    by simp
  from a b show ?thesis by simp
qed


section \<open>Fetching logs\<close>

text \<open>
  C6. When the backend answers the viewer's request with a 2xx response whose body is a
  \<open>LogsResponse\<close>, \<open>fetchLogs\<close> leaves the viewer with exactly the lines and the total
  of that body, whatever it showed before. When the request fails (no response, or a
  status outside 200..299), the lines and the total are what they were. The requested
  limit is untouched in both cases.
\<close>

theorem fetchLogs_replaces_or_keeps:
  assumes "server (request_onFulfilled (get_config (LogsUrl (linesLimit v))) w) = reply"
  shows "(\<forall>r lr. reply = Response r \<and> validateStatus (status r) \<and> data r = Data lr \<longrightarrow>
            logs' (fst (snd (fetchLogs server (v, w)))) = Some (logs lr)
          \<and> totalLines (fst (snd (fetchLogs server (v, w)))) = Some (total_lines lr)
          \<and> linesLimit (fst (snd (fetchLogs server (v, w)))) = linesLimit v)
    \<and> ((\<exists>m. reply = NoResponse m) \<or> (\<exists>r. reply = Response r \<and> \<not> validateStatus (status r)) \<longrightarrow>
            logs' (fst (snd (fetchLogs server (v, w)))) = logs' v
          \<and> totalLines (fst (snd (fetchLogs server (v, w)))) = totalLines v
          \<and> linesLimit (fst (snd (fetchLogs server (v, w)))) = linesLimit v)"
  using assms
  by (auto simp: fetchLogs_def fetchLogs_try_def fetchLogs_catch_def try_catch_def getLogs_def
      axios_get_def axios_request_def response_onRejected_def response_onFulfilled_def)

text \<open>
  The theorem at the example of the specification: a fetch that returns the lines
  \<open>a\<close> and \<open>b\<close>, followed by a fetch against an unreachable backend.
\<close>

theorem fetchLogs_replaces_or_keeps_witness:
  "logs' (fst (snd (fetchLogs logs_server (initial_viewer, sample_browser sample_token))))
     = Some [''a'', ''b'']
   \<and> totalLines (fst (snd (fetchLogs logs_server (initial_viewer, sample_browser sample_token))))
     = Some 2
   \<and> logs' (fst (snd (fetchLogs offline_server
        (fst (snd (fetchLogs logs_server (initial_viewer, sample_browser sample_token))),
         sample_browser sample_token))))
     = Some [''a'', ''b'']
   \<and> totalLines (fst (snd (fetchLogs offline_server
        (fst (snd (fetchLogs logs_server (initial_viewer, sample_browser sample_token))),
         sample_browser sample_token))))
     = Some 2"
proof -
  let ?w = "sample_browser sample_token"
  let ?lr = "\<lparr>logs = [''a'', ''b''], total_lines = 2, returned_lines = 2\<rparr>"
  let ?r = "\<lparr>status = 200, data = Data ?lr\<rparr>"
  let ?v = "fst (snd (fetchLogs logs_server (initial_viewer, ?w)))"
  have h1: "logs_server (request_onFulfilled (get_config (LogsUrl (linesLimit initial_viewer))) ?w)
              = Response ?r"
    by (simp add: sample_defs client_defs browser_defs truthy_def)
  have ok: "validateStatus (status ?r)" by (simp add: validateStatus_def)
  have h2: "(offline_server :: config \<Rightarrow> LogsResponse reply)
              (request_onFulfilled (get_config (LogsUrl (linesLimit ?v))) ?w)
              = NoResponse ''Network Error''"
    by (simp add: offline_server_def)
  from fetchLogs_replaces_or_keeps [where server = logs_server, OF h1] ok
  have a: "logs' ?v = Some [''a'', ''b''] \<and> totalLines ?v = Some 2" by simp
  from fetchLogs_replaces_or_keeps [where server = offline_server, OF h2]
  have b: "logs' (fst (snd (fetchLogs offline_server (?v, ?w)))) = logs' ?v
         \<and> totalLines (fst (snd (fetchLogs offline_server (?v, ?w)))) = totalLines ?v" by simp
  from a b show ?thesis by simp
qed


section \<open>The two logouts\<close>

text \<open>
  C10. \<open>handleLogout\<close> of the header changes the route to \<open>/login\<close> and leaves the
  storage as it is, so a stored token is still stored afterwards; \<open>logout\<close> of the
  service removes the token, once, and loads \<open>/login\<close>.
\<close>

theorem header_logout_keeps_token:
  "localStorage (handleLogout w) = localStorage w
   \<and> (getItem ''auth_token'' w = Some token \<longrightarrow>
        getItem ''auth_token'' (handleLogout w) = Some token)
   \<and> href (handleLogout w) = ''/login''
   \<and> token_removals (handleLogout w) = token_removals w
   \<and> getItem ''auth_token'' (logout w) = None
   \<and> href (logout w) = ''/login''
   \<and> token_removals (logout w) = Suc (token_removals w)"
  by (simp add: handleLogout_def logout_def browser_defs)

text \<open>The theorem in a browser that holds the sample token.\<close>

theorem header_logout_keeps_token_witness:
  "getItem ''auth_token'' (sample_browser sample_token) = Some sample_token
   \<and> getItem ''auth_token'' (handleLogout (sample_browser sample_token)) = Some sample_token
   \<and> href (handleLogout (sample_browser sample_token)) = ''/login''
   \<and> getItem ''auth_token'' (logout (sample_browser sample_token)) = None"
  using header_logout_keeps_token [of "sample_browser sample_token" sample_token]
  by (simp add: sample_browser_def getItem_def)

end
